theory Spec2Isabelle
  imports Complex_Main "HOL-Library.Log_Nat"
begin

section \<open>The embedding generator of the semantic word game\<close>

text \<open>
  A shallow embedding of \<^verbatim>\<open>embeddings-py/embedding_generator.py\<close>. Exceptions are
  values: a function that can raise returns \<open>error + 'a\<close>. The third-party libraries
  (the NLTK corpora, the sentence-embedding model, UMAP, scikit-learn's cosine
  similarity, the sizes of the files written) are parameters of the functions that call
  them. Printing is left out.
\<close>

datatype error =
    ValueError | AttributeError | IndexError | KeyError | TypeError | ZeroDivisionError
  | NumpyDivideByZero

text \<open>
  The first six are Python exceptions. \<open>NumpyDivideByZero\<close> is not one: when a numpy
  float is divided by zero, numpy warns, the quotient is \<^verbatim>\<open>inf\<close>, the products with it
  are \<^verbatim>\<open>nan\<close>, and what \<^verbatim>\<open>astype\<close> makes of \<^verbatim>\<open>nan\<close> in an unsigned integer type is not
  specified. The model has no value for such an array and stops there with this outcome.
\<close>

subsection \<open>Floating-point arithmetic\<close>

text \<open>
  A numpy float array has one precision: 11 bits of significand for \<^verbatim>\<open>float16\<close>, 24 for
  \<^verbatim>\<open>float32\<close>, 53 for \<^verbatim>\<open>float64\<close>. A finite float is a rational number; every
  arithmetic operation gives the exact result rounded to \<open>p\<close> significant bits, to
  nearest, ties to even (\<open>fl p\<close>), in the array's precision, as numpy 2 computes
  it. The exponent is unbounded: overflow, underflow, infinities and NaN are outside
  the model.
\<close>

type_synonym vec = "rat list"
type_synonym matrix = "rat list list"

definition pow2 :: "int \<Rightarrow> rat" where
  "pow2 k = (if 0 \<le> k then 2 ^ nat k else 1 / 2 ^ nat (- k))"

text \<open>\<open>ilog2 x\<close> is the exponent \<open>e\<close> with \<open>2\<^sup>e \<le> x < 2\<^sup>e\<^sup>+\<^sup>1\<close>, for \<open>x > 0\<close>.\<close>

definition ilog2 :: "rat \<Rightarrow> int" where
  "ilog2 x =
     (let (a, b) = quotient_of x;
          k = bitlen a - bitlen b
      in if pow2 k \<le> x then k else k - 1)"

definition round_half_even :: "rat \<Rightarrow> int" where
  "round_half_even q =
     (let f = \<lfloor>q\<rfloor>; r = q - of_int f
      in if r < 1 / 2 then f
         else if 1 / 2 < r then f + 1
         else if even f then f else f + 1)"

definition fl :: "nat \<Rightarrow> rat \<Rightarrow> rat" where
  "fl p x =
     (if x = 0 then 0
      else (let u = pow2 (ilog2 \<bar>x\<bar> + 1 - int p)
            in of_int (round_half_even (x / u)) * u))"

text \<open>Conversion of a float to an integer truncates towards zero.\<close>

definition trunc :: "rat \<Rightarrow> int" where
  "trunc x = (if 0 \<le> x then \<lfloor>x\<rfloor> else \<lceil>x\<rceil>)"

subsection \<open>numpy's unsigned integer types\<close>

datatype dtype = Uint8 | Uint16 | Uint32 | Uint64

fun dtype_bits :: "dtype \<Rightarrow> nat" where
  "dtype_bits Uint8 = 8"
| "dtype_bits Uint16 = 16"
| "dtype_bits Uint32 = 32"
| "dtype_bits Uint64 = 64"

text \<open>
  \<^verbatim>\<open>getattr(np, name)\<close> for the names \<^verbatim>\<open>uint<n>\<close>: numpy has \<^verbatim>\<open>uint8\<close>, \<^verbatim>\<open>uint16\<close>,
  \<^verbatim>\<open>uint32\<close> and \<^verbatim>\<open>uint64\<close>; any other such name raises \<^verbatim>\<open>AttributeError\<close>.
\<close>

definition np_getattr :: "string \<Rightarrow> error + dtype" where
  "np_getattr name =
     (if name = ''uint8'' then Inr Uint8
      else if name = ''uint16'' then Inr Uint16
      else if name = ''uint32'' then Inr Uint32
      else if name = ''uint64'' then Inr Uint64
      else Inl AttributeError)"

text \<open>
  \<^verbatim>\<open>x.astype(dt)\<close> on one float: truncation; a value outside the type's range is
  reduced modulo \<open>2\<^sup>b\<^sup>i\<^sup>t\<^sup>s\<close> (C leaves that conversion undefined).
\<close>

definition astype_uint :: "dtype \<Rightarrow> rat \<Rightarrow> nat" where
  "astype_uint dt x = nat (trunc x mod 2 ^ dtype_bits dt)"

text \<open>The decimal text of an integer, as an f-string writes it.\<close>

definition digit_char :: "nat \<Rightarrow> char" where
  "digit_char d = char_of (48 + d)"

function show_nat :: "nat \<Rightarrow> string" where
  "show_nat n = (if n < 10 then [digit_char n] else show_nat (n div 10) @ [digit_char (n mod 10)])"
  by pat_completeness auto
termination
  by (relation "measure id") auto

definition show_int :: "int \<Rightarrow> string" where
  "show_int i = (if i < 0 then CHR ''-'' # show_nat (nat (- i)) else show_nat (nat i))"

subsection \<open>Sequences, \<^verbatim>\<open>Counter\<close> and dictionaries\<close>

text \<open>\<^verbatim>\<open>list.index\<close>: the first position of an element, \<^verbatim>\<open>ValueError\<close> when it is absent.\<close>

fun list_index :: "'a list \<Rightarrow> 'a \<Rightarrow> error + nat" where
  "list_index [] y = Inl ValueError"
| "list_index (x # xs) y =
     (if x = y then Inr 0
      else (case list_index xs y of Inl e \<Rightarrow> Inl e | Inr i \<Rightarrow> Inr (Suc i)))"

text \<open>Indexing with a non-negative index: \<^verbatim>\<open>IndexError\<close> out of range.\<close>

definition getitem :: "'a list \<Rightarrow> nat \<Rightarrow> error + 'a" where
  "getitem xs i = (if i < length xs then Inr (xs ! i) else Inl IndexError)"



text \<open>
  \<^verbatim>\<open>Counter(xs)\<close>: each distinct element with the number of its occurrences, in the
  order of first occurrence. \<^verbatim>\<open>most_common()\<close> sorts the items by decreasing count and
  keeps that order among equal counts (the sort is stable).
\<close>

definition first_occurrences :: "'a list \<Rightarrow> 'a list" where
  "first_occurrences xs = rev (remdups (rev xs))"

definition Counter :: "'a list \<Rightarrow> ('a \<times> nat) list" where
  "Counter xs = map (\<lambda>k. (k, count_list xs k)) (first_occurrences xs)"


text \<open>\<^verbatim>\<open>d[k] = v\<close> on a dictionary kept as a list of items in insertion order.\<close>

fun dict_set :: "'k \<Rightarrow> 'v \<Rightarrow> ('k \<times> 'v) list \<Rightarrow> ('k \<times> 'v) list" where
  "dict_set k v [] = [(k, v)]"
| "dict_set k v ((k', v') # d) = (if k' = k then (k, v) # d else (k', v') # dict_set k v d)"

text \<open>A loop that stops at the first exception.\<close>

fun map_raise :: "('a \<Rightarrow> error + 'b) \<Rightarrow> 'a list \<Rightarrow> error + 'b list" where
  "map_raise f [] = Inr []"
| "map_raise f (x # xs) =
     (case f x of
        Inl e \<Rightarrow> Inl e
      | Inr y \<Rightarrow> (case map_raise f xs of Inl e \<Rightarrow> Inl e | Inr ys \<Rightarrow> Inr (y # ys)))"

subsection \<open>\<^verbatim>\<open>get_frequency_sorted_words\<close>\<close>











subsection \<open>Min-max quantization\<close>

text \<open>\<^verbatim>\<open>arr.min()\<close> and \<^verbatim>\<open>arr.max()\<close> of a two-dimensional array; an array with no entry raises \<^verbatim>\<open>ValueError\<close>.\<close>

definition entries :: "matrix \<Rightarrow> rat list" where
  "entries arr = concat arr"

text \<open>
  \<^verbatim>\<open>quantize_to_uint(arr, n_bits)\<close>, the helper inside \<^verbatim>\<open>analyze_collisions\<close>.
  \<^verbatim>\<open>2**n_bits - 1\<close> becomes a float when it is divided by one.
\<close>

definition quantize_to_uint :: "nat \<Rightarrow> matrix \<Rightarrow> int \<Rightarrow> error + dtype \<times> nat list list" where
  "quantize_to_uint p arr n_bits =
     (if entries arr = [] then Inl ValueError
      else
        (let arr_min = Min (set (entries arr));
             arr_max = Max (set (entries arr));
             d = fl p (arr_max - arr_min)
         in if d = 0 then Inl NumpyDivideByZero
            else
              (let scale = fl p (fl p (pow2 n_bits - 1) / d)
               in case np_getattr (if n_bits \<le> 8 then ''uint'' @ show_int n_bits else ''uint16'') of
                    Inl e \<Rightarrow> Inl e
                  | Inr dt \<Rightarrow>
                      Inr (dt, map (map (\<lambda>a. astype_uint dt (fl p (fl p (a - arr_min) * scale)))) arr))))"

text \<open>\<^verbatim>\<open>quantize_to_uint8(arr)\<close>, the helper inside \<^verbatim>\<open>export_data\<close>.\<close>

definition quantize_to_uint8 :: "nat \<Rightarrow> matrix \<Rightarrow> error + nat list list \<times> rat \<times> rat \<times> rat" where
  "quantize_to_uint8 p arr =
     (if entries arr = [] then Inl ValueError
      else
        (let arr_min = Min (set (entries arr));
             arr_max = Max (set (entries arr));
             d = fl p (arr_max - arr_min)
         in if d = 0 then Inl NumpyDivideByZero
            else
              (let scale = fl p (255 / d);
                   quantized = map (map (\<lambda>a. astype_uint Uint8 (fl p (fl p (a - arr_min) * scale)))) arr
               in Inr (quantized, arr_min, arr_max, scale))))"

text \<open>
  The quantization of the similarities in \<^verbatim>\<open>analyze_similarity_collisions\<close>: a
  one-dimensional array, always cast to \<^verbatim>\<open>uint8\<close>.
\<close>

definition quantize_similarities :: "nat \<Rightarrow> vec \<Rightarrow> int \<Rightarrow> error + nat list \<times> rat \<times> rat" where
  "quantize_similarities p similarities bits =
     (if similarities = [] then Inl ValueError
      else
        (let sim_min = Min (set similarities);
             sim_max = Max (set similarities);
             d = fl p (sim_max - sim_min)
         in if d = 0 then Inl NumpyDivideByZero
            else
              (let scale = fl p (fl p (pow2 bits - 1) / d)
               in Inr (map (\<lambda>a. astype_uint Uint8 (fl p (fl p (a - sim_min) * scale))) similarities,
                       sim_min, scale))))"

subsection \<open>\<^verbatim>\<open>analyze_collisions\<close>\<close>

text \<open>The words at the positions where the quantized row is \<open>t\<close>.\<close>

definition colliding_words :: "nat list list \<Rightarrow> string list \<Rightarrow> nat list \<Rightarrow> error + string list" where
  "colliding_words embedding_tuples ws t =
     map_raise (getitem ws)
       (filter (\<lambda>i. embedding_tuples ! i = t) [0..<length embedding_tuples])"

text \<open>
  The collision rate is the quotient of two Python integers; the model keeps it as the
  exact rational.
\<close>

definition analyze_collisions ::
  "nat \<Rightarrow> matrix \<Rightarrow> string list \<Rightarrow> int \<Rightarrow> error + rat \<times> string list list" where
  "analyze_collisions p embs ws bits =
     (case quantize_to_uint p embs bits of
        Inl e \<Rightarrow> Inl e
      | Inr (dt, quantized) \<Rightarrow>
         (let embedding_tuples = quantized;
              unique_embeddings = card (set embedding_tuples);
              total_embeddings = length embs
          in if total_embeddings = 0 then Inl ZeroDivisionError
             else
               (let collision_rate =
                      (of_nat total_embeddings - of_nat unique_embeddings) / of_nat total_embeddings;
                    embedding_counts = Counter embedding_tuples;
                    collisions = filter (\<lambda>ec. 1 < snd ec) embedding_counts
                in if collisions \<noteq> [] then
                     (case map_raise (\<lambda>ec. colliding_words embedding_tuples ws (fst ec))
                             (take 5 collisions) of
                        Inl e \<Rightarrow> Inl e
                      | Inr collision_groups \<Rightarrow> Inr (collision_rate, collision_groups))
                   else Inr (0, []))))"

subsection \<open>\<^verbatim>\<open>analyze_similarity_collisions\<close>\<close>

definition common_targets :: "string list" where
  "common_targets = [''house'', ''water'', ''time'', ''person'', ''day'']"

text \<open>
  \<open>cosine_similarity t E\<close> is the row \<^verbatim>\<open>cosine_similarity([t], E)[0]\<close>. The default of
  \<^verbatim>\<open>next\<close>, \<^verbatim>\<open>words[len(words) // 2]\<close>, is evaluated before the search.
\<close>

definition analyze_similarity_collisions ::
  "nat \<Rightarrow> (vec \<Rightarrow> matrix \<Rightarrow> vec) \<Rightarrow> matrix \<Rightarrow> string list \<Rightarrow> string option \<Rightarrow> int \<Rightarrow> error + rat" where
  "analyze_similarity_collisions p cosine_similarity embs ws target_word bits =
     (case (if target_word = None \<or> the target_word \<notin> set ws
            then (case getitem ws (length ws div 2) of
                    Inl e \<Rightarrow> Inl e
                  | Inr dflt \<Rightarrow>
                      Inr (case filter (\<lambda>w. w \<in> set ws) common_targets of
                             [] \<Rightarrow> dflt | w # _ \<Rightarrow> w))
            else Inr (the target_word)) of
        Inl e \<Rightarrow> Inl e
      | Inr target \<Rightarrow>
         (case list_index ws target of
            Inl e \<Rightarrow> Inl e
          | Inr target_idx \<Rightarrow>
             (case getitem embs target_idx of
                Inl e \<Rightarrow> Inl e
              | Inr target_embedding \<Rightarrow>
                 (case quantize_similarities p (cosine_similarity target_embedding embs) bits of
                    Inl e \<Rightarrow> Inl e
                  | Inr (quantized_sims, sim_min, scale) \<Rightarrow>
                     (let sim_counts = Counter quantized_sims;
                          sim_collisions = filter (\<lambda>sc. 1 < snd sc) sim_counts
                      in if length ws = 0 then Inl ZeroDivisionError
                         else Inr (of_nat (sum_list (map (\<lambda>sc. snd sc - 1) sim_collisions))
                                   / of_nat (length ws)))))))"

subsection \<open>The class \<^verbatim>\<open>EmbeddingGenerator\<close>\<close>

record generator =
  embeddings :: "matrix option"
  words :: "string list option"
  umap_coords :: "matrix option"





text \<open>
  \<^verbatim>\<open>test_similarity(self, word1, word2)\<close>. \<^verbatim>\<open>in\<close> on \<^verbatim>\<open>None\<close> and indexing \<^verbatim>\<open>None\<close>
  raise \<^verbatim>\<open>TypeError\<close>. The cosine similarity of two vectors is scikit-learn's; its
  value is of a type \<open>'f\<close> of floats.
\<close>

definition test_similarity ::
  "(vec \<Rightarrow> vec \<Rightarrow> 'f) \<Rightarrow> generator \<Rightarrow> string \<Rightarrow> string \<Rightarrow> error + 'f option" where
  "test_similarity cosine g word1 word2 =
     (case words g of
        None \<Rightarrow> Inl TypeError
      | Some ws \<Rightarrow>
          if word1 \<notin> set ws \<or> word2 \<notin> set ws then Inr None
          else (case list_index ws word1 of Inl e \<Rightarrow> Inl e | Inr idx1 \<Rightarrow>
                (case list_index ws word2 of Inl e \<Rightarrow> Inl e | Inr idx2 \<Rightarrow>
                 (case embeddings g of
                    None \<Rightarrow> Inl TypeError
                  | Some E \<Rightarrow>
                     (case getitem E idx1 of Inl e \<Rightarrow> Inl e | Inr v1 \<Rightarrow>
                      (case getitem E idx2 of Inl e \<Rightarrow> Inl e | Inr v2 \<Rightarrow>
                         Inr (Some (cosine v1 v2))))))))"

text \<open>
  \<^verbatim>\<open>_print_results\<close>: the ratio \<^verbatim>\<open>size / original_size\<close> divides by the size of the raw
  JSON file.
\<close>

definition print_results :: "(string \<times> nat) list \<Rightarrow> error + unit" where
  "print_results formats =
     (case map_of formats ''JSON (raw)'' of
        None \<Rightarrow> Inl KeyError
      | Some original_size \<Rightarrow> if original_size = 0 then Inl ZeroDivisionError else Inr ())"

text \<open>
  \<^verbatim>\<open>export_data(self, output_dir)\<close>. \<open>st_size dir name\<close> is the size of the file
  \<open>name\<close> once it is written in \<open>dir\<close>; \<open>HAS_BLOSC\<close> and \<open>HAS_LZ4\<close> say whether the
  optional compression libraries were imported. \<^verbatim>\<open>.tolist()\<close> on \<^verbatim>\<open>None\<close> raises
  \<^verbatim>\<open>AttributeError\<close>, \<^verbatim>\<open>len(None)\<close> raises \<^verbatim>\<open>TypeError\<close>.
\<close>

definition export_data ::
  "nat \<Rightarrow> (string \<Rightarrow> string \<Rightarrow> nat) \<Rightarrow> bool \<Rightarrow> bool \<Rightarrow> (vec \<Rightarrow> matrix \<Rightarrow> vec) \<Rightarrow>
   generator \<Rightarrow> string \<Rightarrow> error + (string \<times> nat) list" where
  "export_data p st_size HAS_BLOSC HAS_LZ4 cosine_similarity g output_dir =
     (case embeddings g of None \<Rightarrow> Inl AttributeError | Some E \<Rightarrow>
      (case umap_coords g of None \<Rightarrow> Inl AttributeError | Some C \<Rightarrow>
       (case words g of None \<Rightarrow> Inl TypeError | Some ws \<Rightarrow>
        (let formats = [];
             formats = dict_set ''JSON (raw)'' (st_size output_dir ''embeddings.json'') formats;
             formats = dict_set ''JSON (gzip)'' (st_size output_dir ''embeddings.json.gz'') formats;
             formats = dict_set ''JSON (brotli)'' (st_size output_dir ''embeddings.json.br'') formats;
             formats = dict_set ''NumPy (.npz)'' (st_size output_dir ''embeddings.npz'') formats;
             formats = dict_set ''Float32 binary (gzip)''
                         (st_size output_dir ''embeddings_float32.bin.gz'') formats;
             formats = dict_set ''Float16 binary (gzip)''
                         (st_size output_dir ''embeddings_float16.bin.gz'') formats;
             formats = (if HAS_BLOSC
                        then dict_set ''Blosc2 (float32)'' (st_size output_dir ''embeddings.blosc2'') formats
                        else formats);
             formats = (if HAS_LZ4
                        then dict_set ''LZ4 (float32)'' (st_size output_dir ''embeddings.lz4'') formats
                        else formats)
         in case quantize_to_uint8 p E of Inl e \<Rightarrow> Inl e | Inr quant_embeddings \<Rightarrow>
            (case quantize_to_uint8 p C of Inl e \<Rightarrow> Inl e | Inr quant_coords \<Rightarrow>
             (let formats = dict_set ''8-bit quantized JSON (raw)''
                              (st_size output_dir ''embeddings_quantized.json'') formats;
                  formats = dict_set ''8-bit quantized + Brotli''
                              (st_size output_dir ''embeddings_quantized.json.br'') formats;
                  formats = dict_set ''Base64 + Brotli (web)''
                              (st_size output_dir ''embeddings_b64.json.br'') formats
              in case print_results formats of Inl e \<Rightarrow> Inl e | Inr _ \<Rightarrow>
                 (case analyze_collisions p E ws 8 of Inl e \<Rightarrow> Inl e | Inr _ \<Rightarrow>
                  (case analyze_similarity_collisions p cosine_similarity E ws None 8 of
                     Inl e \<Rightarrow> Inl e
                   | Inr _ \<Rightarrow> Inr formats))))))))"

subsection \<open>Stand-ins for the libraries, for the examples\<close>

text \<open>A file system in which every file is as long as its path, and the dot product as similarity.\<close>

definition example_st_size :: "string \<Rightarrow> string \<Rightarrow> nat" where
  "example_st_size dir name = length dir + length name"

definition example_similarity :: "vec \<Rightarrow> matrix \<Rightarrow> vec" where
  "example_similarity t E = map (\<lambda>r. sum_list (map2 (*) t r)) E"

definition example_generator :: generator where
  "example_generator =
     \<lparr>embeddings = Some [[0, 1], [1, 0]], words = Some [''house'', ''home''],
      umap_coords = Some [[0, 1], [2, 3]]\<rparr>"

section \<open>Properties\<close>

subsection \<open>Rounding\<close>

lemma pow2_powi: "pow2 k = 2 powi k"
  by (simp add: pow2_def power_int_def inverse_eq_divide power_one_over)

lemma pow2_pos: "0 < pow2 k"
  by (simp add: pow2_powi)

lemma pow2_add: "pow2 (i + j) = pow2 i * pow2 j"
  by (simp add: pow2_powi power_int_add)


lemma pow2_nat: "pow2 (int n) = 2 ^ n"
  by (simp add: pow2_def)


lemma bitlen_rat_bounds:
  assumes "0 < a"
  shows "pow2 (bitlen a - 1) \<le> of_int a \<and> of_int a < pow2 (bitlen a)"
proof -
  have pos: "0 < bitlen a" using assms bitlen_bounds[of a] bitlen_nonneg[of a]
    by (smt (verit) nat_0_iff power_0)
  have "(2::int) ^ nat (bitlen a - 1) \<le> a" "a < 2 ^ nat (bitlen a)"
    using bitlen_bounds[OF assms] by auto
  then have "(of_int (2 ^ nat (bitlen a - 1)) :: rat) \<le> of_int a" "(of_int a :: rat) < of_int (2 ^ nat (bitlen a))"
    by (simp_all only: of_int_le_iff of_int_less_iff)
  then show ?thesis using pos by (simp add: pow2_def)
qed

lemma ilog2_bounds:
  assumes "0 < x"
  shows "pow2 (ilog2 x) \<le> x \<and> x < pow2 (ilog2 x + 1)"
proof -
  obtain a b where q: "quotient_of x = (a, b)" by (cases "quotient_of x")
  have b: "0 < b" using q quotient_of_denom_pos by blast
  have x: "x = of_int a / of_int b" using q quotient_of_div by blast
  have a: "0 < a" using assms x b by (simp add: zero_less_divide_iff)
  define k where "k = bitlen a - bitlen b"
  have A: "pow2 (bitlen a - 1) \<le> of_int a" "of_int a < pow2 (bitlen a)"
    using bitlen_rat_bounds[OF a] by auto
  have B: "pow2 (bitlen b - 1) \<le> of_int b" "of_int b < pow2 (bitlen b)"
    using bitlen_rat_bounds[OF b] by auto
  have bpos: "(0::rat) < of_int b" using b by simp
  have "x * of_int b = of_int a" using x bpos by simp
  have up: "x < pow2 (k + 1)"
  proof -
    have "pow2 (bitlen a) = pow2 (k + 1) * pow2 (bitlen b - 1)"
      unfolding k_def pow2_add[symmetric] by simp
    also have "\<dots> \<le> pow2 (k + 1) * of_int b"
      using B(1) pow2_pos[of "k + 1"] by simp
    finally have "of_int a < pow2 (k + 1) * of_int b" using A(2) by simp
    then show ?thesis using x bpos by (simp add: pos_divide_less_eq)
  qed
  have lo: "pow2 (k - 1) \<le> x"
  proof -
    have "pow2 (k - 1) * of_int b \<le> pow2 (k - 1) * pow2 (bitlen b)"
      using B(2) pow2_pos[of "k - 1"] by simp
    also have "\<dots> = pow2 (bitlen a - 1)"
      unfolding k_def pow2_add[symmetric] by simp
    finally have "pow2 (k - 1) * of_int b \<le> of_int a" using A(1) by simp
    then show ?thesis using x bpos by (simp add: pos_le_divide_eq)
  qed
  have il: "ilog2 x = (if pow2 k \<le> x then k else k - 1)"
    by (simp add: ilog2_def q k_def Let_def)
  show ?thesis
  proof (cases "pow2 k \<le> x")
    case True
    then show ?thesis using il up by simp
  next
    case False
    then show ?thesis using il lo by simp
  qed
qed

lemma rhe_cases:
  "round_half_even q = \<lfloor>q\<rfloor> \<and> q - of_int \<lfloor>q\<rfloor> \<le> 1 / 2
   \<or> round_half_even q = \<lfloor>q\<rfloor> + 1 \<and> 1 / 2 \<le> q - of_int \<lfloor>q\<rfloor>"
  by (auto simp: round_half_even_def Let_def)


lemma rhe_ge_int: "of_int n \<le> q \<Longrightarrow> n \<le> round_half_even q"
proof -
  assume "of_int n \<le> q"
  then have "n \<le> \<lfloor>q\<rfloor>" by (simp add: le_floor_iff)
  then show ?thesis using rhe_cases[of q] by auto
qed



lemma fl_zero: "fl p 0 = 0"
  by (simp add: fl_def)

lemma fl_pos_unfold:
  "0 < x \<Longrightarrow> fl p x = of_int (round_half_even (x / pow2 (ilog2 x + 1 - int p))) * pow2 (ilog2 x + 1 - int p)"
  by (simp add: fl_def Let_def)



lemma fl_lower:
  assumes "0 < x" "0 < p"
  shows "pow2 (ilog2 x) \<le> fl p x"
proof -
  define u where "u = pow2 (ilog2 x + 1 - int p)"
  have u: "0 < u" by (simp add: u_def pow2_pos)
  have "int (p - 1) + (ilog2 x + 1 - int p) = ilog2 x" using assms(2) by simp
  then have pu: "pow2 (ilog2 x) = 2 ^ (p - 1) * u"
    using pow2_add[of "int (p - 1)" "ilog2 x + 1 - int p"] pow2_nat[of "p - 1"]
    by (simp only: u_def)
  have "2 ^ (p - 1) * u \<le> x" using ilog2_bounds[OF assms(1)] pu by simp
  then have "of_int (2 ^ (p - 1)) \<le> x / u" using u by (simp add: pos_le_divide_eq)
  then have "2 ^ (p - 1) \<le> round_half_even (x / u)" by (rule rhe_ge_int)
  then have "(of_int (2 ^ (p - 1)) :: rat) \<le> of_int (round_half_even (x / u))"
    by (simp only: of_int_le_iff)
  then have "2 ^ (p - 1) * u \<le> of_int (round_half_even (x / u)) * u" using u by simp
  then show ?thesis using assms pu by (simp add: fl_pos_unfold u_def)
qed




subsection \<open>The quantizers\<close>

text \<open>
  C4, at \<^verbatim>\<open>bits=4\<close>: the helper looks up \<^verbatim>\<open>np.uint4\<close>, which numpy does not have, and
  the call ends in \<^verbatim>\<open>AttributeError\<close> instead of an unsigned 8-bit array.
\<close>

theorem quantize_to_uint_4_bits_raises:
  "quantize_to_uint 24 [[0, 1], [2, 3]] 4 = Inl AttributeError"
  by code_simp

lemma fl_eq_0_iff:
  assumes "0 \<le> x" "0 < p"
  shows "fl p x = 0 \<longleftrightarrow> x = 0"
proof
  assume z: "fl p x = 0"
  show "x = 0"
  proof (rule ccontr)
    assume "x \<noteq> 0"
    then have x: "0 < x" using assms(1) by simp
    have "0 < pow2 (ilog2 x)" by (rule pow2_pos)
    then show False using fl_lower [OF x assms(2)] z by simp
  qed
next
  assume "x = 0"
  then show "fl p x = 0" by (simp add: fl_zero)
qed

lemma range_zero_iff:
  assumes "xs \<noteq> []" "0 < p"
  shows "fl p (Max (set xs) - Min (set xs)) = 0 \<longleftrightarrow> \<not> (\<exists>a \<in> set xs. \<exists>b \<in> set xs. a \<noteq> b)"
proof -
  have fin: "finite (set xs)" "set xs \<noteq> {}" using assms(1) by simp_all
  have le: "Min (set xs) \<le> Max (set xs)" using fin by (simp add: Min_le_iff)
  have "fl p (Max (set xs) - Min (set xs)) = 0 \<longleftrightarrow> Max (set xs) = Min (set xs)"
    using fl_eq_0_iff [of "Max (set xs) - Min (set xs)" p] le assms(2) by simp
  also have "\<dots> \<longleftrightarrow> \<not> (\<exists>a \<in> set xs. \<exists>b \<in> set xs. a \<noteq> b)"
  proof
    assume eq: "Max (set xs) = Min (set xs)"
    have "\<And>a. a \<in> set xs \<Longrightarrow> a = Min (set xs)"
    proof -
      fix a assume a: "a \<in> set xs"
      have "Min (set xs) \<le> a" "a \<le> Max (set xs)" using a fin by simp_all
      then show "a = Min (set xs)" using eq by simp
    qed
    then show "\<not> (\<exists>a \<in> set xs. \<exists>b \<in> set xs. a \<noteq> b)" by metis
  next
    assume h: "\<not> (\<exists>a \<in> set xs. \<exists>b \<in> set xs. a \<noteq> b)"
    have "Max (set xs) \<in> set xs" "Min (set xs) \<in> set xs" using fin by simp_all
    then show "Max (set xs) = Min (set xs)" using h by blast
  qed
  finally show ?thesis .
qed



subsection \<open>Quantization to eight bits\<close>










lemma show_nat_digit: "n < 10 \<Longrightarrow> show_nat n = [digit_char n]"
  by (subst show_nat.simps) simp

lemma digit_char_below_8:
  assumes "k < 8"
  shows "digit_char k \<in> set ''01234567''"
proof -
  have d: "digit_char 0 = CHR ''0''" "digit_char 1 = CHR ''1''" "digit_char 2 = CHR ''2''"
    "digit_char 3 = CHR ''3''" "digit_char 4 = CHR ''4''" "digit_char 5 = CHR ''5''"
    "digit_char 6 = CHR ''6''" "digit_char 7 = CHR ''7''"
    by code_simp+
  have "k = 0 \<or> k = 1 \<or> k = 2 \<or> k = 3 \<or> k = 4 \<or> k = 5 \<or> k = 6 \<or> k = 7"
    using assms by linarith
  then show ?thesis using d by auto
qed

lemma np_getattr_below_8:
  assumes "n_bits < 8"
  shows "np_getattr (''uint'' @ show_int n_bits) = Inl AttributeError"
proof (cases "n_bits < 0")
  case True
  then show ?thesis by (simp add: show_int_def np_getattr_def)
next
  case False
  then have k: "nat n_bits < 8" using assms by simp
  then have s: "show_int n_bits = [digit_char (nat n_bits)]"
    using False by (simp add: show_int_def show_nat_digit)
  show ?thesis
    using digit_char_below_8 [OF k] unfolding s by (auto simp: np_getattr_def)
qed

lemma np_getattr_8: "np_getattr (''uint'' @ show_int 8) = Inr Uint8"
  by code_simp

lemma astype_uint_bound: "astype_uint dt x < 2 ^ dtype_bits dt"
proof -
  have "trunc x mod 2 ^ dtype_bits dt < 2 ^ dtype_bits dt" by simp
  moreover have "0 \<le> trunc x mod 2 ^ dtype_bits dt" by simp
  ultimately have "nat (trunc x mod 2 ^ dtype_bits dt) < nat (2 ^ dtype_bits dt)"
    by (simp only: nat_less_eq_zless)
  then show ?thesis by (simp add: astype_uint_def)
qed

text \<open>
  The types \<^verbatim>\<open>quantize_to_uint\<close> stores in, on an array with two different values:
  \<^verbatim>\<open>uint8\<close> for \<open>n_bits = 8\<close>, \<^verbatim>\<open>uint16\<close> for \<open>n_bits > 8\<close>, every stored value
  within the type's range; for every \<open>n_bits < 8\<close> the call raises \<^verbatim>\<open>AttributeError\<close>.
\<close>

theorem quantize_to_uint_dtype:
  assumes "0 < p" and "a \<in> set (entries arr)" and "b \<in> set (entries arr)" and "a \<noteq> b"
  shows "(n_bits < 8 \<longrightarrow> quantize_to_uint p arr n_bits = Inl AttributeError) \<and>
         (n_bits = 8 \<longrightarrow>
            (\<exists>q. quantize_to_uint p arr n_bits = Inr (Uint8, q) \<and>
                 (\<forall>row \<in> set q. \<forall>v \<in> set row. v < 2 ^ 8))) \<and>
         (8 < n_bits \<longrightarrow>
            (\<exists>q. quantize_to_uint p arr n_bits = Inr (Uint16, q) \<and>
                 (\<forall>row \<in> set q. \<forall>v \<in> set row. v < 2 ^ 16)))"
proof -
  have ne: "entries arr \<noteq> []" using assms(2) by auto
  have nz: "fl p (Max (set (entries arr)) - Min (set (entries arr))) \<noteq> 0"
    using range_zero_iff [OF ne assms(1)] assms(2, 3, 4) by blast
  have b8: "\<forall>row \<in> set (map (map (astype_uint Uint8 \<circ> f)) arr). \<forall>v \<in> set row. v < 2 ^ 8"
    for f :: "rat \<Rightarrow> rat"
    using astype_uint_bound [of Uint8] by auto
  have b16: "\<forall>row \<in> set (map (map (astype_uint Uint16 \<circ> f)) arr). \<forall>v \<in> set row. v < 2 ^ 16"
    for f :: "rat \<Rightarrow> rat"
    using astype_uint_bound [of Uint16] by auto
  show ?thesis
  proof (intro conjI impI)
    assume "n_bits < 8"
    then show "quantize_to_uint p arr n_bits = Inl AttributeError"
      using ne nz np_getattr_below_8 [of n_bits] by (simp add: quantize_to_uint_def Let_def)
  next
    assume n: "n_bits = 8"
    define f where "f = (\<lambda>a. fl p (fl p (a - Min (set (entries arr)))
                 * fl p (fl p (pow2 8 - 1) / fl p (Max (set (entries arr)) - Min (set (entries arr))))))"
    have "quantize_to_uint p arr n_bits = Inr (Uint8, map (map (astype_uint Uint8 \<circ> f)) arr)"
      using ne nz np_getattr_8 n by (simp add: quantize_to_uint_def Let_def f_def comp_def)
    then show "\<exists>q. quantize_to_uint p arr n_bits = Inr (Uint8, q) \<and>
                 (\<forall>row \<in> set q. \<forall>v \<in> set row. v < 2 ^ 8)"
      using b8 [of f] by simp
  next
    assume n: "8 < n_bits"
    define f where "f = (\<lambda>a. fl p (fl p (a - Min (set (entries arr)))
                 * fl p (fl p (pow2 n_bits - 1) / fl p (Max (set (entries arr)) - Min (set (entries arr))))))"
    have "np_getattr ''uint16'' = Inr Uint16" by (simp add: np_getattr_def)
    then have "quantize_to_uint p arr n_bits = Inr (Uint16, map (map (astype_uint Uint16 \<circ> f)) arr)"
      using ne nz n by (simp add: quantize_to_uint_def Let_def f_def comp_def)
    then show "\<exists>q. quantize_to_uint p arr n_bits = Inr (Uint16, q) \<and>
                 (\<forall>row \<in> set q. \<forall>v \<in> set row. v < 2 ^ 16)"
      using b16 [of f] by simp
  qed
qed

theorem quantize_to_uint_dtype_witness:
  "(0 :: nat) < 24 \<and> (0 :: rat) \<in> set (entries [[0, 1], [2, 3]]) \<and>
   (3 :: rat) \<in> set (entries [[0, 1], [2, 3]]) \<and> (0 :: rat) \<noteq> 3 \<and>
   quantize_to_uint 24 [[0, 1], [2, 3]] 7 = Inl AttributeError \<and>
   quantize_to_uint 24 [[0, 1], [2, 3]] 8 = Inr (Uint8, [[0, 85], [170, 255]])"
proof -
  have p: "(0 :: nat) < 24" by simp
  have a: "(0 :: rat) \<in> set (entries [[0, 1], [2, 3]])" by (simp add: entries_def)
  have b: "(3 :: rat) \<in> set (entries [[0, 1], [2, 3]])" by (simp add: entries_def)
  have ab: "(0 :: rat) \<noteq> 3" by simp
  have "quantize_to_uint 24 [[0, 1], [2, 3]] 7 = Inl AttributeError"
    using quantize_to_uint_dtype [OF p a b ab, of 7] by simp
  moreover have "quantize_to_uint 24 [[0, 1], [2, 3]] 8 = Inr (Uint8, [[0, 85], [170, 255]])"
    by code_simp
  ultimately show ?thesis using a b by simp
qed

subsection \<open>Collisions\<close>

lemma set_first_occurrences: "set (first_occurrences xs) = set xs"
  by (simp add: first_occurrences_def)

lemma distinct_first_occurrences: "distinct (first_occurrences xs)"
  by (simp add: first_occurrences_def)

lemma set_Counter: "set (Counter xs) = (\<lambda>k. (k, count_list xs k)) ` set xs"
  by (simp add: Counter_def set_first_occurrences)

lemma map_raise_Inr: "(\<forall>x \<in> set xs. f x = Inr (g x)) \<Longrightarrow> map_raise f xs = Inr (map g xs)"
  by (induction xs) simp_all

lemma colliding_words_Inr:
  assumes "length tuples \<le> length ws"
  shows "colliding_words tuples ws t
           = Inr (map ((!) ws) (filter (\<lambda>i. tuples ! i = t) [0..<length tuples]))"
  unfolding colliding_words_def
  by (rule map_raise_Inr) (use assms in \<open>auto simp: getitem_def\<close>)

lemma distinct_iff_count_list: "distinct xs \<longleftrightarrow> (\<forall>x \<in> set xs. count_list xs x \<le> 1)"
proof (induction xs)
  case Nil
  show ?case by simp
next
  case (Cons a xs)
  show ?case
  proof (cases "a \<in> set xs")
    case True
    then have "0 < count_list xs a" using count_list_0_iff [of xs a] by simp
    then show ?thesis using True by auto
  next
    case False
    then have "count_list xs a = 0" by (simp add: count_list_0_iff)
    then show ?thesis using False Cons.IH by auto
  qed
qed

lemma shared_rows:
  "map fst (filter (\<lambda>ec. 1 < snd ec) (Counter xs))
     = filter (\<lambda>k. 1 < count_list xs k) (first_occurrences xs)"
  by (simp add: Counter_def filter_map comp_def)

lemma no_shared_row_iff: "filter (\<lambda>ec. 1 < snd ec) (Counter xs) = [] \<longleftrightarrow> distinct xs"
proof -
  have "filter (\<lambda>ec. 1 < snd ec) (Counter xs) = [] \<longleftrightarrow> (\<forall>ec \<in> set (Counter xs). \<not> 1 < snd ec)"
    by (simp add: filter_empty_conv)
  also have "\<dots> \<longleftrightarrow> (\<forall>x \<in> set xs. count_list xs x \<le> 1)"
    by (auto simp: set_Counter)
  finally show ?thesis by (simp add: distinct_iff_count_list)
qed

lemma quantize_to_uint_rows:
  assumes "quantize_to_uint p embs bits = Inr (dt, q)"
  shows "length q = length embs \<and> embs \<noteq> []"
proof -
  have ne: "entries embs \<noteq> []"
    using assms by (auto simp: quantize_to_uint_def)
  then have "embs \<noteq> []" by (auto simp: entries_def)
  moreover have "length q = length embs"
    using assms ne by (auto simp: quantize_to_uint_def Let_def split: if_splits sum.splits)
  ultimately show ?thesis by simp
qed

lemma analyze_collisions_result:
  assumes q: "quantize_to_uint p embs bits = Inr (dt, q)"
    and len: "length embs \<le> length ws"
  shows "analyze_collisions p embs ws bits =
           Inr (if distinct q then (0, [])
                else ((of_nat (length embs) - of_nat (card (set q))) / of_nat (length embs),
                      map (\<lambda>r. map ((!) ws) (filter (\<lambda>i. q ! i = r) [0..<length q]))
                        (take 5 (filter (\<lambda>r. 1 < count_list q r) (first_occurrences q)))))"
proof -
  have rows: "length q = length embs" "embs \<noteq> []"
    using quantize_to_uint_rows [OF q] by simp_all
  have lq: "length q \<le> length ws" using rows len by simp
  let ?coll = "filter (\<lambda>ec. 1 < snd ec) (Counter q)"
  let ?group = "\<lambda>r. map ((!) ws) (filter (\<lambda>i. q ! i = r) [0..<length q])"
  have groups: "map_raise (\<lambda>ec. colliding_words q ws (fst ec)) (take 5 ?coll)
                  = Inr (map (\<lambda>ec. ?group (fst ec)) (take 5 ?coll))"
    by (rule map_raise_Inr) (simp add: colliding_words_Inr [OF lq])
  have "map (\<lambda>ec. ?group (fst ec)) (take 5 ?coll) = map ?group (take 5 (map fst ?coll))"
    by (simp add: take_map comp_def)
  then have groups': "map_raise (\<lambda>ec. colliding_words q ws (fst ec)) (take 5 ?coll)
                  = Inr (map ?group (take 5 (filter (\<lambda>r. 1 < count_list q r) (first_occurrences q))))"
    using groups by (simp only: shared_rows)
  show ?thesis
  proof (cases "distinct q")
    case True
    then have "?coll = []" using no_shared_row_iff [of q] by simp
    then show ?thesis using q rows True by (simp add: analyze_collisions_def Let_def)
  next
    case False
    then have "?coll \<noteq> []" using no_shared_row_iff [of q] by simp
    then show ?thesis using q rows False groups'
      by (simp add: analyze_collisions_def Let_def)
  qed
qed



lemma count_shared_rows:
  "length (filter (\<lambda>r. 1 < count_list q r) (first_occurrences q))
     = card {r \<in> set q. 1 < count_list q r}"
proof -
  have "length (filter (\<lambda>r. 1 < count_list q r) (first_occurrences q))
          = card ({r. 1 < count_list q r} \<inter> set (first_occurrences q))"
    using distinct_first_occurrences [of q] by (rule distinct_length_filter)
  also have "{r. 1 < count_list q r} \<inter> set (first_occurrences q) = {r \<in> set q. 1 < count_list q r}"
    by (auto simp: set_first_occurrences)
  finally show ?thesis .
qed

text \<open>
  C10. When two words share a quantized row, \<^verbatim>\<open>analyze_collisions\<close> returns at least
  one and at most five groups: one for each of the first five shared rows (in the order
  in which the rows first occur), also when more than five rows are shared. A group
  lists the words at exactly the positions whose quantized row is the group's row.
\<close>

theorem analyze_collisions_first_five_groups:
  assumes "length ws = length embs"
    and "quantize_to_uint p embs bits = Inr (dt, q)"
    and "\<not> distinct q"
  shows "\<exists>rate groups.
           analyze_collisions p embs ws bits = Inr (rate, groups) \<and>
           groups \<noteq> [] \<and> length groups \<le> 5 \<and>
           length groups = min 5 (card {r \<in> set q. 1 < count_list q r}) \<and>
           groups = map (\<lambda>r. map ((!) ws) (filter (\<lambda>i. q ! i = r) [0..<length q]))
                      (take 5 (filter (\<lambda>r. 1 < count_list q r) (first_occurrences q)))"
proof -
  let ?rows = "filter (\<lambda>r. 1 < count_list q r) (first_occurrences q)"
  let ?groups = "map (\<lambda>r. map ((!) ws) (filter (\<lambda>i. q ! i = r) [0..<length q])) (take 5 ?rows)"
  have res: "analyze_collisions p embs ws bits
               = Inr ((of_nat (length embs) - of_nat (card (set q))) / of_nat (length embs), ?groups)"
    using analyze_collisions_result [OF assms(2), of ws] assms(1, 3) by simp
  have "filter (\<lambda>ec. 1 < snd ec) (Counter q) \<noteq> []"
    using no_shared_row_iff [of q] assms(3) by simp
  then have "map fst (filter (\<lambda>ec. 1 < snd ec) (Counter q)) \<noteq> []" by simp
  then have ne: "?rows \<noteq> []" unfolding shared_rows .
  have len: "length ?groups = min 5 (card {r \<in> set q. 1 < count_list q r})"
    using count_shared_rows [of q] by simp
  have "?groups \<noteq> []" using ne by simp
  moreover have "length ?groups \<le> 5" by simp
  ultimately show ?thesis using res len by blast
qed

theorem analyze_collisions_first_five_groups_witness:
  "analyze_collisions 24
     [[0], [0], [1], [1], [2], [2], [3], [3], [4], [4], [5], [5], [6]]
     [''a0'', ''b0'', ''a1'', ''b1'', ''a2'', ''b2'', ''a3'', ''b3'', ''a4'', ''b4'', ''a5'', ''b5'', ''c'']
     8
   = Inr (6 / 13,
          [[''a0'', ''b0''], [''a1'', ''b1''], [''a2'', ''b2''], [''a3'', ''b3''], [''a4'', ''b4'']])"
proof -
  let ?E = "[[0], [0], [1], [1], [2], [2], [3], [3], [4], [4], [5], [5], [6 :: rat]]"
  let ?W = "[''a0'', ''b0'', ''a1'', ''b1'', ''a2'', ''b2'', ''a3'', ''b3'', ''a4'', ''b4'', ''a5'', ''b5'', ''c'']"
  let ?Q = "[[0], [0], [42], [42], [85], [85], [127], [127], [170], [170], [212], [212], [255 :: nat]]"
  have l: "length ?W = length ?E" by simp
  have q: "quantize_to_uint 24 ?E 8 = Inr (Uint8, ?Q)" by code_simp
  have d: "\<not> distinct ?Q" by simp
  have rate: "analyze_collisions 24 ?E ?W 8
                = Inr (6 / 13, [[''a0'', ''b0''], [''a1'', ''b1''], [''a2'', ''b2''], [''a3'', ''b3''], [''a4'', ''b4'']])"
    by code_simp
  from analyze_collisions_first_five_groups [OF l q d]
  obtain r g where "analyze_collisions 24 ?E ?W 8 = Inr (r, g)" "length g \<le> 5" by blast
  then show ?thesis using rate by simp
qed

subsection \<open>The vocabulary\<close>










subsection \<open>The generator's state\<close>

lemma list_index_in:
  "y \<in> set xs \<Longrightarrow> \<exists>i. list_index xs y = Inr i \<and> i < length xs \<and> xs ! i = y"
  by (induction xs) auto





text \<open>
  C8. With a stored word list, \<^verbatim>\<open>test_similarity(word1, word2)\<close> returns \<^verbatim>\<open>None\<close>
  exactly when one of the two words is not in the list; when both are in it (and the
  generator holds an embedding for every word) it returns the cosine similarity of the
  embeddings stored at the words' first positions.
\<close>

theorem test_similarity_none_iff_word_absent:
  assumes "words g = Some ws"
  shows "(test_similarity cosine g word1 word2 = Inr None
            \<longleftrightarrow> word1 \<notin> set ws \<or> word2 \<notin> set ws) \<and>
         (word1 \<in> set ws \<and> word2 \<in> set ws \<and> embeddings g = Some E \<and> length ws \<le> length E \<longrightarrow>
            (\<exists>i j. list_index ws word1 = Inr i \<and> list_index ws word2 = Inr j \<and>
                   test_similarity cosine g word1 word2 = Inr (Some (cosine (E ! i) (E ! j)))))"
proof (intro conjI impI)
  show "test_similarity cosine g word1 word2 = Inr None
          \<longleftrightarrow> word1 \<notin> set ws \<or> word2 \<notin> set ws"
  proof (cases "word1 \<notin> set ws \<or> word2 \<notin> set ws")
    case True
    then show ?thesis using assms by (simp add: test_similarity_def)
  next
    case False
    obtain i where i: "list_index ws word1 = Inr i"
      using False list_index_in [of word1 ws] by auto
    obtain j where j: "list_index ws word2 = Inr j"
      using False list_index_in [of word2 ws] by auto
    have "test_similarity cosine g word1 word2 \<noteq> Inr None"
      using assms False i j
      by (simp add: test_similarity_def getitem_def split: option.splits)
    then show ?thesis using False by simp
  qed
next
  assume h: "word1 \<in> set ws \<and> word2 \<in> set ws \<and> embeddings g = Some E \<and> length ws \<le> length E"
  obtain i where i: "list_index ws word1 = Inr i" "i < length ws"
    using h list_index_in [of word1 ws] by auto
  obtain j where j: "list_index ws word2 = Inr j" "j < length ws"
    using h list_index_in [of word2 ws] by auto
  have "test_similarity cosine g word1 word2 = Inr (Some (cosine (E ! i) (E ! j)))"
    using assms h i j by (simp add: test_similarity_def getitem_def)
  then show "\<exists>i j. list_index ws word1 = Inr i \<and> list_index ws word2 = Inr j \<and>
                  test_similarity cosine g word1 word2 = Inr (Some (cosine (E ! i) (E ! j)))"
    using i j by blast
qed

theorem test_similarity_none_iff_word_absent_witness:
  "words \<lparr>embeddings = Some [[1, 0], [0, 1]], words = Some [''house'', ''home''], umap_coords = None\<rparr>
     = Some [''house'', ''home''] \<and>
   test_similarity (\<lambda>v w. sum_list (map2 (*) v w))
     \<lparr>embeddings = Some [[1, 0], [0, 1]], words = Some [''house'', ''home''], umap_coords = None\<rparr>
     ''house'' ''sea'' = Inr None \<and>
   test_similarity (\<lambda>v w. sum_list (map2 (*) v w))
     \<lparr>embeddings = Some [[1, 0], [0, 1]], words = Some [''house'', ''home''], umap_coords = None\<rparr>
     ''house'' ''home'' = Inr (Some 0)"
proof -
  let ?g = "\<lparr>embeddings = Some [[1, 0], [0, 1 :: rat]], words = Some [''house'', ''home''],
             umap_coords = None\<rparr>"
  let ?c = "\<lambda>v w :: rat list. sum_list (map2 (*) v w)"
  have w: "words ?g = Some [''house'', ''home'']" by simp
  have a: "test_similarity ?c ?g ''house'' ''sea'' = Inr None"
    using test_similarity_none_iff_word_absent [OF w, of ?c "''house''" "''sea''"] by simp
  have b: "test_similarity ?c ?g ''house'' ''home'' = Inr (Some 0)"
    using test_similarity_none_iff_word_absent
            [OF w, of ?c "''house''" "''home''" "[[1, 0], [0, 1]]"]
    by simp
  show ?thesis using w a b by simp
qed

subsection \<open>The export\<close>

text \<open>
  C5. \<^verbatim>\<open>export_data\<close> does not fill twelve entries. When it returns, the dictionary
  \<^verbatim>\<open>formats\<close> holds nine entries, one more when Blosc2 was imported and one more when
  LZ4 was: nine, ten or eleven format names, all different, each with the size of a
  file written in the output directory.
\<close>

theorem export_data_counts_formats:
  assumes "export_data p st_size HAS_BLOSC HAS_LZ4 cosine_similarity g output_dir = Inr formats"
  shows "length formats = 9 + (if HAS_BLOSC then 1 else 0) + (if HAS_LZ4 then 1 else 0) \<and>
         length formats \<noteq> 12 \<and>
         distinct (map fst formats) \<and>
         (\<forall>item \<in> set formats. \<exists>file. snd item = st_size output_dir file)"
proof -
  define d6 where "d6 =
     [(''JSON (raw)'', st_size output_dir ''embeddings.json''),
      (''JSON (gzip)'', st_size output_dir ''embeddings.json.gz''),
      (''JSON (brotli)'', st_size output_dir ''embeddings.json.br''),
      (''NumPy (.npz)'', st_size output_dir ''embeddings.npz''),
      (''Float32 binary (gzip)'', st_size output_dir ''embeddings_float32.bin.gz''),
      (''Float16 binary (gzip)'', st_size output_dir ''embeddings_float16.bin.gz'')]"
  define opt where "opt =
     (if HAS_BLOSC then [(''Blosc2 (float32)'', st_size output_dir ''embeddings.blosc2'')] else []) @
     (if HAS_LZ4 then [(''LZ4 (float32)'', st_size output_dir ''embeddings.lz4'')] else [])"
  define q3 where "q3 =
     [(''8-bit quantized JSON (raw)'', st_size output_dir ''embeddings_quantized.json''),
      (''8-bit quantized + Brotli'', st_size output_dir ''embeddings_quantized.json.br''),
      (''Base64 + Brotli (web)'', st_size output_dir ''embeddings_b64.json.br'')]"
  have "formats = d6 @ opt @ q3"
    using assms unfolding export_data_def Let_def d6_def opt_def q3_def
    by (simp split: option.splits sum.splits if_splits)
  then show ?thesis
    unfolding d6_def opt_def q3_def by auto
qed

theorem export_data_counts_formats_witness:
  "export_data 24 example_st_size True False example_similarity example_generator ''out''
   = Inr [(''JSON (raw)'', 18), (''JSON (gzip)'', 21), (''JSON (brotli)'', 21),
          (''NumPy (.npz)'', 17), (''Float32 binary (gzip)'', 28),
          (''Float16 binary (gzip)'', 28), (''Blosc2 (float32)'', 20),
          (''8-bit quantized JSON (raw)'', 28), (''8-bit quantized + Brotli'', 31),
          (''Base64 + Brotli (web)'', 25)] \<and>
   length [(''JSON (raw)'', 18 :: nat), (''JSON (gzip)'', 21), (''JSON (brotli)'', 21),
          (''NumPy (.npz)'', 17), (''Float32 binary (gzip)'', 28),
          (''Float16 binary (gzip)'', 28), (''Blosc2 (float32)'', 20),
          (''8-bit quantized JSON (raw)'', 28), (''8-bit quantized + Brotli'', 31),
          (''Base64 + Brotli (web)'', 25)] = 9 + 1 + 0"
proof -
  have e: "export_data 24 example_st_size True False example_similarity example_generator ''out''
   = Inr [(''JSON (raw)'', 18), (''JSON (gzip)'', 21), (''JSON (brotli)'', 21),
          (''NumPy (.npz)'', 17), (''Float32 binary (gzip)'', 28),
          (''Float16 binary (gzip)'', 28), (''Blosc2 (float32)'', 20),
          (''8-bit quantized JSON (raw)'', 28), (''8-bit quantized + Brotli'', 31),
          (''Base64 + Brotli (web)'', 25)]"
    by code_simp
  show ?thesis using e export_data_counts_formats [OF e] by simp
qed

text \<open>With both optional libraries imported the dictionary has eleven entries.\<close>

theorem export_data_eleven_formats:
  "map_sum id length
     (export_data 24 example_st_size True True example_similarity example_generator ''out'')
   = Inr 11"
  by code_simp

end
